theory Spec2Isabelle
  imports Complex_Main "HOL-Library.AList"
begin

section \<open>JavaScript values\<close>

text \<open>
  The module \<^verbatim>\<open>formatter.js\<close> handles GeoJSON data as plain JavaScript objects.  Only
  three observations on a value are made by the code: strict comparison with
  \<^verbatim>\<open>null\<close>, truthiness (\<^verbatim>\<open>if (x)\<close>) and \<^verbatim>\<open>typeof x === 'object'\<close>.  Numbers carry their
  mathematical value; no arithmetic is done on them here.
\<close>

datatype jsnum = NaN | PosInfinity | NegInfinity | Finite real

datatype jsval =
    JUndefined
  | JNull
  | JBool bool
  | JNum jsnum
  | JStr string
  | JArray "jsval list"
  | JObject "(string \<times> jsval) list"

text \<open>An exception thrown by a collaborator or by the runtime.\<close>

datatype js_error = SyntaxError | TypeError | ModuleError | ExternalError string

fun js_truthy :: "jsval \<Rightarrow> bool" where
  "js_truthy JUndefined = False"
| "js_truthy JNull = False"
| "js_truthy (JBool b) = b"
| "js_truthy (JNum NaN) = False"
| "js_truthy (JNum (Finite r)) = (r \<noteq> 0)"
| "js_truthy (JNum _) = True"
| "js_truthy (JStr s) = (s \<noteq> [])"
| "js_truthy (JArray _) = True"
| "js_truthy (JObject _) = True"

fun js_typeof :: "jsval \<Rightarrow> string" where
  "js_typeof JUndefined = ''undefined''"
| "js_typeof JNull = ''object''"
| "js_typeof (JBool _) = ''boolean''"
| "js_typeof (JNum _) = ''number''"
| "js_typeof (JStr _) = ''string''"
| "js_typeof (JArray _) = ''object''"
| "js_typeof (JObject _) = ''object''"

subsection \<open>Property bags\<close>

text \<open>
  \<^verbatim>\<open>feature.properties\<close> is an object used as a dictionary.  It is an association list
  in insertion order: \<^verbatim>\<open>o[k]\<close> reads \<^verbatim>\<open>undefined\<close> for a missing key, \<^verbatim>\<open>o[k] = v\<close>
  overwrites in place or appends, \<^verbatim>\<open>delete o[k]\<close> removes the key.  A key may be present
  with the value \<^verbatim>\<open>undefined\<close>, which is not the same object as one without the key.
\<close>

type_synonym props = "(string \<times> jsval) list"

definition js_get :: "props \<Rightarrow> string \<Rightarrow> jsval" where
  "js_get ps k = (case map_of ps k of None \<Rightarrow> JUndefined | Some v \<Rightarrow> v)"

definition js_set :: "string \<Rightarrow> jsval \<Rightarrow> props \<Rightarrow> props" where
  "js_set k v ps = AList.update k v ps"

definition js_delete :: "string \<Rightarrow> props \<Rightarrow> props" where
  "js_delete k ps = AList.delete k ps"

definition has_key :: "props \<Rightarrow> string \<Rightarrow> bool" where
  "has_key ps k = (k \<in> set (map fst ps))"

record feature =
  geometry :: jsval
  properties :: props

text \<open>
  A converter's GeoJSON object, reduced to its \<^verbatim>\<open>features\<close> member; \<open>None\<close> stands for
  an object whose \<^verbatim>\<open>features\<close> member is missing (\<^verbatim>\<open>data.features || []\<close> in
  \<^verbatim>\<open>fromGPX\<close>).
\<close>

type_synonym geojson = "feature list option"

section \<open>Collaborators\<close>

text \<open>
  The error object that \<^verbatim>\<open>csv2geojson\<close> hands to its callback: either one object
  \<^verbatim>\<open>{type: 'Error', message}\<close>, or an array of row errors, of which only the
  \<^verbatim>\<open>message\<close> members are read.
\<close>

datatype csv_err = ErrObject string | ErrRows "string list"

text \<open>What the code does to the outside: \<^verbatim>\<open>Alert.error(message, duration?)\<close> and
  \<^verbatim>\<open>console.debug(err)\<close>.\<close>

datatype effect = Alert_error string "nat option" | Console_debug csv_err

text \<open>
  Everything the module imports or takes from the global scope is a parameter.  A
  collaborator that can throw returns a sum, \<open>Inl\<close> the exception.  The type \<open>'d\<close> is
  the XML document type.
  \<^item> \<open>JSON_parse\<close>: the built-in \<^verbatim>\<open>JSON.parse\<close>, applied to any value.
  \<^item> \<open>import_betterknown\<close>, \<open>import_togeojson\<close>, \<open>import_georss\<close>: the dynamic
    \<^verbatim>\<open>import(...)\<close> of a vendored module; \<open>Some e\<close> when loading fails.
  \<^item> \<open>wktToGeoJSON\<close>: \<^verbatim>\<open>betterknown.wktToGeoJSON\<close>, a synchronous function.
  \<^item> \<open>translate\<close>: \<^verbatim>\<open>translate(template, params)\<close> of \<^verbatim>\<open>i18n.js\<close>.
  \<^item> \<open>csv2geojson\<close>: the pair \<^verbatim>\<open>(err, result)\<close> that \<^verbatim>\<open>csv2geojson.csv2geojson\<close> passes
    to its callback for a text under the options of \<^verbatim>\<open>fromCSV\<close>; the first component is
    \<open>None\<close> for a falsy \<^verbatim>\<open>err\<close>, the second is \<open>None\<close> when no result is passed.
  \<^item> \<open>parseFromString\<close>, \<open>parsererror\<close>: \<^verbatim>\<open>DOMParser\<close> and the query for a
    \<^verbatim>\<open>parsererror\<close> node.
  \<^item> \<open>Number_toString\<close>: the digits that \<^verbatim>\<open>JSON.stringify\<close> writes for a finite number.
\<close>

record 'd env =
  JSON_parse :: "jsval \<Rightarrow> js_error + jsval"
  import_betterknown :: "js_error option"
  wktToGeoJSON :: "jsval \<Rightarrow> js_error + jsval"
  translate :: "string \<Rightarrow> (string \<times> jsval) list \<Rightarrow> string"
  csv2geojson :: "string \<Rightarrow> csv_err option \<times> feature list option"
  parseFromString :: "string \<Rightarrow> 'd"
  parsererror :: "'d \<Rightarrow> bool"
  import_togeojson :: "js_error option"
  togeojson_gpx :: "'d \<Rightarrow> js_error + geojson"
  togeojson_kml :: "'d \<Rightarrow> js_error + geojson"
  osmtogeojson :: "jsval + 'd \<Rightarrow> js_error + geojson"
  import_georss :: "js_error option"
  GeoRSS_parse :: "'d \<Rightarrow> js_error + geojson"
  Number_toString :: "real \<Rightarrow> string"

section \<open>The geometry text resolver\<close>

text \<open>
  \<^verbatim>\<open>parseTextGeom\<close>: \<^verbatim>\<open>JSON.parse\<close> first; when it throws, load the WKT module and
  call it; when that throws, \<^verbatim>\<open>null\<close>.  The result is a sum so that "does not throw"
  is a statement about the function and not about its type.
\<close>

definition parseTextGeom :: "'d env \<Rightarrow> jsval \<Rightarrow> js_error + jsval" where
  "parseTextGeom env geom =
     (case JSON_parse env geom of
        Inr v \<Rightarrow> Inr v
      | Inl e \<Rightarrow>
          (case import_betterknown env of
             Some e1 \<Rightarrow> Inr JNull
           | None \<Rightarrow>
               (case wktToGeoJSON env geom of
                  Inr g \<Rightarrow> Inr g
                | Inl e2 \<Rightarrow> Inr JNull)))"

section \<open>CSV import\<close>

text \<open>\<^verbatim>\<open>str.split(/\r\n|\r|\n/)\<close>: the pieces between line breaks; the empty string
  gives one empty piece.\<close>

fun split_lines :: "string \<Rightarrow> string list" where
  "split_lines [] = [[]]"
| "split_lines (c # cs) =
     (if c = CHR 0x0D \<and> cs \<noteq> [] \<and> hd cs = CHR 0x0A then [] # split_lines (tl cs)
      else if c = CHR 0x0D \<or> c = CHR 0x0A then [] # split_lines cs
      else (case split_lines cs of
              [] \<Rightarrow> [[c]]
            | l # ls \<Rightarrow> (c # l) # ls))"

definition geomFields :: "string list" where
  "geomFields = [''geom'', ''geometry'', ''wkt'', ''geojson'']"

definition NO_GEO_COLUMN :: string where
  "NO_GEO_COLUMN =
     ''No geo column found: must be either `lat(itude)` and `lon(gitude)` or `geom(etry)`.''"

definition ERRORS_DURING_IMPORT :: string where
  "ERRORS_DURING_IMPORT = ''{count} errors during import: {message}''"

text \<open>
  The inner loop of lines 104 to 107: every feature gets the resolver's value for the
  column as its geometry and loses the column.  An exception of the awaited resolver
  would leave the loop and the callback.
\<close>

fun resolve_column :: "'d env \<Rightarrow> string \<Rightarrow> feature list \<Rightarrow> js_error + feature list" where
  "resolve_column env field [] = Inr []"
| "resolve_column env field (ft # fts) =
     (case parseTextGeom env (js_get (properties ft) field) of
        Inl e \<Rightarrow> Inl e
      | Inr g \<Rightarrow>
          (case resolve_column env field fts of
             Inl e \<Rightarrow> Inl e
           | Inr fts' \<Rightarrow>
               Inr (ft\<lparr>geometry := g, properties := js_delete field (properties ft)\<rparr> # fts')))"

text \<open>
  The outer loop of lines 102 to 110 over the candidate names, with its \<^verbatim>\<open>break\<close>.
  \<open>first\<close> is the first feature as the converter returned it: the loop reads its
  properties only before any feature is changed.
\<close>

fun geom_loop ::
  "'d env \<Rightarrow> string list \<Rightarrow> feature \<Rightarrow> feature list \<Rightarrow> js_error + feature list" where
  "geom_loop env [] first fts = Inr fts"
| "geom_loop env (field # others) first fts =
     (if js_truthy (js_get (properties first) field) then resolve_column env field fts
      else geom_loop env others first fts)"

text \<open>
  The two parsers behind the resolver both refuse the value \<^verbatim>\<open>undefined\<close>, which is what
  \<^verbatim>\<open>feature.properties[field]\<close> reads on a feature without the column:
  \<^verbatim>\<open>JSON.parse\<close> throws, and the WKT module fails to load, throws or returns \<^verbatim>\<open>null\<close>.
\<close>

definition rejects_undefined :: "'d env \<Rightarrow> bool" where
  "rejects_undefined env =
     (isl (JSON_parse env JUndefined) \<and>
      (import_betterknown env \<noteq> None \<or> isl (wktToGeoJSON env JUndefined) \<or>
       wktToGeoJSON env JUndefined = Inr JNull))"

text \<open>
  Lines 98 to 123: the new value of \<^verbatim>\<open>err\<close> and the features of \<^verbatim>\<open>result\<close>.  After the
  loop \<^verbatim>\<open>first\<close> is still the first element of \<^verbatim>\<open>result.features\<close>, so the second test of
  \<^verbatim>\<open>first.geometry\<close> reads the changed feature.
\<close>

definition detect_geometry ::
  "'d env \<Rightarrow> csv_err option \<Rightarrow> feature list option \<Rightarrow>
     js_error + (csv_err option \<times> feature list option)" where
  "detect_geometry env err result =
     (case result of
        None \<Rightarrow> Inr (err, result)
      | Some [] \<Rightarrow> Inr (err, result)
      | Some (first # rest) \<Rightarrow>
          (if geometry first = JNull then
             (case geom_loop env geomFields first (first # rest) of
                Inl e \<Rightarrow> Inl e
              | Inr [] \<Rightarrow> Inr (err, Some [])
              | Inr (first' # rest') \<Rightarrow>
                  (if geometry first' = JNull
                   then Inr (Some (ErrObject (translate env NO_GEO_COLUMN [])),
                             Some (first' # rest'))
                   else Inr (err, Some (first' # rest'))))
           else Inr (err, result)))"

text \<open>
  Lines 124 to 140.  Reading \<^verbatim>\<open>err[0].message\<close> of an empty array throws a
  \<^verbatim>\<open>TypeError\<close> (an empty array is truthy).
\<close>

definition report :: "'d env \<Rightarrow> string \<Rightarrow> csv_err option \<Rightarrow> js_error + effect list" where
  "report env str err =
     (case err of
        None \<Rightarrow> Inr []
      | Some e \<Rightarrow>
          (case (case e of
                   ErrObject m \<Rightarrow> Inr m
                 | ErrRows [] \<Rightarrow> Inl TypeError
                 | ErrRows (m # ms) \<Rightarrow>
                     Inr (translate env ERRORS_DURING_IMPORT
                            [(''count'', JNum (Finite (real (length (m # ms))))),
                             (''message'', JStr m)])) of
             Inl x \<Rightarrow> Inl x
           | Inr message \<Rightarrow>
               (if length (split_lines str) \<le> 2 then Inr [Console_debug e]
                else Inr [Alert_error message (Some 10000)])))"

text \<open>
  The whole callback given to \<^verbatim>\<open>csv2geojson\<close>: what it did to the outside, the
  argument of \<^verbatim>\<open>callback\<close> if it was called, and the exception that ended it, if any.
\<close>

record csv_outcome =
  effects :: "effect list"
  delivered :: "feature list option"
  threw :: "js_error option"

definition on_converted ::
  "'d env \<Rightarrow> string \<Rightarrow> csv_err option \<Rightarrow> feature list option \<Rightarrow> csv_outcome" where
  "on_converted env str err result =
     (case detect_geometry env err result of
        Inl x \<Rightarrow> \<lparr>effects = [], delivered = None, threw = Some x\<rparr>
      | Inr (err', result') \<Rightarrow>
          (case report env str err' of
             Inl x \<Rightarrow> \<lparr>effects = [], delivered = None, threw = Some x\<rparr>
           | Inr effs \<Rightarrow>
               (case result' of
                  None \<Rightarrow> \<lparr>effects = effs, delivered = None, threw = None\<rparr>
                | Some [] \<Rightarrow> \<lparr>effects = effs, delivered = None, threw = None\<rparr>
                | Some (f # fs) \<Rightarrow>
                    \<lparr>effects = effs, delivered = Some (f # fs), threw = None\<rparr>)))"

definition fromCSV :: "'d env \<Rightarrow> string \<Rightarrow> csv_outcome" where
  "fromCSV env str = (case csv2geojson env str of (err, result) \<Rightarrow> on_converted env str err result)"

section \<open>XML adapters\<close>

text \<open>\<^verbatim>\<open>toDom\<close>: a document with a \<^verbatim>\<open>parsererror\<close> node is reported, with no duration,
  and returned all the same.\<close>

definition toDom :: "'d env \<Rightarrow> string \<Rightarrow> effect list \<times> 'd" where
  "toDom env x =
     (let doc = parseFromString env x
      in (if parsererror env doc
          then [Alert_error (translate env ''Cannot parse data'' []) None] else [],
          doc))"

definition startsWith_underscore :: "string \<Rightarrow> bool" where
  "startsWith_underscore key = (case key of [] \<Rightarrow> False | c # cs \<Rightarrow> c = CHR ''_'')"

text \<open>
  The \<^verbatim>\<open>for (const key in feature.properties)\<close> loop of \<^verbatim>\<open>fromGPX\<close> over the keys the
  object has when the loop starts; each test reads the object as the earlier deletions
  left it.
\<close>

fun strip_keys :: "string list \<Rightarrow> props \<Rightarrow> props" where
  "strip_keys [] ps = ps"
| "strip_keys (key # keys) ps =
     strip_keys keys
       (if startsWith_underscore key \<or> js_typeof (js_get ps key) = ''object''
        then js_delete key ps else ps)"

text \<open>The body of the loop over \<^verbatim>\<open>data.features\<close> in \<^verbatim>\<open>fromGPX\<close>, lines 57 to 62.\<close>

definition gpx_feature :: "feature \<Rightarrow> feature" where
  "gpx_feature ft =
     (let ps = js_set ''description'' (js_get (properties ft) ''desc'') (properties ft)
      in ft\<lparr>properties := strip_keys (map fst ps) ps\<rparr>)"

text \<open>
  An \<^verbatim>\<open>async\<close> method gives its effects and either the exception it throws or the
  value it returns.  In \<^verbatim>\<open>fromGPX\<close>, \<^verbatim>\<open>fromKML\<close> and \<^verbatim>\<open>fromGeoRSS\<close> the module is loaded
  before \<^verbatim>\<open>toDom\<close> runs.
\<close>

definition fromGPX :: "'d env \<Rightarrow> string \<Rightarrow> effect list \<times> (js_error + geojson)" where
  "fromGPX env str =
     (case import_togeojson env of
        Some e \<Rightarrow> ([], Inl e)
      | None \<Rightarrow>
          (case toDom env str of
             (effs, doc) \<Rightarrow>
               (case togeojson_gpx env doc of
                  Inl e \<Rightarrow> (effs, Inl e)
                | Inr None \<Rightarrow> (effs, Inr None)
                | Inr (Some fts) \<Rightarrow> (effs, Inr (Some (map gpx_feature fts))))))"

definition fromKML :: "'d env \<Rightarrow> string \<Rightarrow> effect list \<times> (js_error + geojson)" where
  "fromKML env str =
     (case import_togeojson env of
        Some e \<Rightarrow> ([], Inl e)
      | None \<Rightarrow>
          (case toDom env str of
             (effs, doc) \<Rightarrow> (effs, togeojson_kml env doc)))"

definition fromGeoJSON :: "'d env \<Rightarrow> string \<Rightarrow> effect list \<times> (js_error + jsval)" where
  "fromGeoJSON env str = ([], JSON_parse env (JStr str))"

definition fromOSM :: "'d env \<Rightarrow> string \<Rightarrow> effect list \<times> (js_error + geojson)" where
  "fromOSM env str =
     (case JSON_parse env (JStr str) of
        Inr src \<Rightarrow> ([], osmtogeojson env (Inl src))
      | Inl e \<Rightarrow>
          (case toDom env str of
             (effs, doc) \<Rightarrow> (effs, osmtogeojson env (Inr doc))))"

definition fromGeoRSS :: "'d env \<Rightarrow> string \<Rightarrow> effect list \<times> (js_error + geojson)" where
  "fromGeoRSS env str =
     (case import_georss env of
        Some e \<Rightarrow> ([], Inl e)
      | None \<Rightarrow>
          (case toDom env str of
             (effs, doc) \<Rightarrow> (effs, GeoRSS_parse env doc)))"

section \<open>The entry point\<close>

text \<open>
  The promise that \<^verbatim>\<open>parse\<close> returns, as it stands once the call and everything it
  started have run.  For \<^verbatim>\<open>'csv'\<close> the only reference to \<^verbatim>\<open>resolve\<close> is inside the
  callback given to \<^verbatim>\<open>fromCSV\<close> and \<^verbatim>\<open>reject\<close> is never used, so the promise is
  fulfilled when the callback was called and stays pending otherwise.  An exception in
  the \<^verbatim>\<open>async\<close> function given to \<^verbatim>\<open>csv2geojson\<close> rejects that function's own promise,
  which nothing holds.
\<close>

datatype parsed = Undefined | Data geojson | Json jsval

datatype promise = Pending | Fulfilled parsed | Rejected js_error

definition settle :: "('a \<Rightarrow> parsed) \<Rightarrow> effect list \<times> (js_error + 'a) \<Rightarrow> effect list \<times> promise" where
  "settle wrap r =
     (case r of
        (effs, Inl e) \<Rightarrow> (effs, Rejected e)
      | (effs, Inr v) \<Rightarrow> (effs, Fulfilled (wrap v)))"

definition parse :: "'d env \<Rightarrow> string \<Rightarrow> string \<Rightarrow> effect list \<times> promise" where
  "parse env str format =
     (if format = ''csv'' then
        (let out = fromCSV env str
         in (effects out,
             (case delivered out of
                Some fts \<Rightarrow> Fulfilled (Data (Some fts))
              | None \<Rightarrow> Pending)))
      else if format = ''gpx'' then settle Data (fromGPX env str)
      else if format = ''kml'' then settle Data (fromKML env str)
      else if format = ''osm'' then settle Data (fromOSM env str)
      else if format = ''georss'' then settle Data (fromGeoRSS env str)
      else if format = ''geojson'' then settle Json (fromGeoJSON env str)
      else ([], Fulfilled Undefined))"

section \<open>GeoJSON export\<close>

text \<open>
  \<^verbatim>\<open>EXPORT_FORMATS.geojson.formatter\<close> is \<^verbatim>\<open>JSON.stringify(umap.toGeoJSON(), null, 2)\<close>.
  The built-in works in two steps.  First it decides what is written: a member whose
  value is \<^verbatim>\<open>undefined\<close> is left out, an array element that is \<^verbatim>\<open>undefined\<close> is written as
  \<^verbatim>\<open>null\<close>, and so are \<^verbatim>\<open>NaN\<close> and the infinities; the value \<^verbatim>\<open>undefined\<close> itself gives
  no text at all.  What is written is a JSON document.
\<close>

datatype json =
    JsonNull
  | JsonBool bool
  | JsonNumber real
  | JsonString string
  | JsonArray "json list"
  | JsonObject "(string \<times> json) list"



text \<open>
  The second step writes the document with the gap of two spaces: \<^verbatim>\<open>[]\<close> and \<^verbatim>\<open>{}\<close> when
  empty, otherwise one element or member per line, one gap deeper, separated by commas,
  a member as its quoted key, a colon, a space and its value.  Members are written in
  the order of the association list.  A string is quoted with the escapes of
  \<^verbatim>\<open>QuoteJSONString\<close>.
\<close>

definition hex_digit :: "nat \<Rightarrow> char" where
  "hex_digit n = ''0123456789abcdef'' ! (n mod 16)"

definition quote_char :: "char \<Rightarrow> string" where
  "quote_char c =
     (if c = CHR 0x22 then [CHR 0x5C, CHR 0x22]
      else if c = CHR 0x5C then [CHR 0x5C, CHR 0x5C]
      else if c = CHR 0x08 then [CHR 0x5C, CHR ''b'']
      else if c = CHR 0x0C then [CHR 0x5C, CHR ''f'']
      else if c = CHR 0x0A then [CHR 0x5C, CHR ''n'']
      else if c = CHR 0x0D then [CHR 0x5C, CHR ''r'']
      else if c = CHR 0x09 then [CHR 0x5C, CHR ''t'']
      else if (of_char c :: nat) < 32
        then [CHR 0x5C, CHR ''u'', CHR ''0'', CHR ''0'',
              hex_digit (of_char c div 16), hex_digit (of_char c)]
      else [c])"

definition QuoteJSONString :: "string \<Rightarrow> string" where
  "QuoteJSONString s = CHR 0x22 # concat (map quote_char s) @ [CHR 0x22]"

definition line_break :: "nat \<Rightarrow> string" where
  "line_break n = CHR 0x0A # concat (replicate n ''  '')"

fun render :: "(real \<Rightarrow> string) \<Rightarrow> nat \<Rightarrow> json \<Rightarrow> string"
  and render_elements :: "(real \<Rightarrow> string) \<Rightarrow> nat \<Rightarrow> json list \<Rightarrow> string"
  and render_members :: "(real \<Rightarrow> string) \<Rightarrow> nat \<Rightarrow> (string \<times> json) list \<Rightarrow> string" where
  "render num n JsonNull = ''null''"
| "render num n (JsonBool b) = (if b then ''true'' else ''false'')"
| "render num n (JsonNumber r) = num r"
| "render num n (JsonString s) = QuoteJSONString s"
| "render num n (JsonArray []) = ''[]''"
| "render num n (JsonArray (d # ds)) =
     ''['' @ line_break (Suc n) @ render_elements num (Suc n) (d # ds) @ line_break n @ '']''"
| "render num n (JsonObject []) = ''{}''"
| "render num n (JsonObject (m # ms)) =
     ''{'' @ line_break (Suc n) @ render_members num (Suc n) (m # ms) @ line_break n @ ''}''"
| "render_elements num n [] = []"
| "render_elements num n [d] = render num n d"
| "render_elements num n (d # d' # ds) =
     render num n d @ '','' @ line_break n @ render_elements num n (d' # ds)"
| "render_members num n [] = []"
| "render_members num n [(k, d)] = QuoteJSONString k @ '': '' @ render num n d"
| "render_members num n ((k, d) # m # ms) =
     QuoteJSONString k @ '': '' @ render num n d @ '','' @ line_break n @
     render_members num n (m # ms)"







text \<open>
  The converter's \<^verbatim>\<open>desc\<close> of a GPX feature is the text of the \<^verbatim>\<open>desc\<close> element, or is
  not there.
\<close>

definition desc_is_text :: "feature \<Rightarrow> bool" where
  "desc_is_text ft =
     (case map_of (properties ft) ''desc'' of
        None \<Rightarrow> True
      | Some (JStr s) \<Rightarrow> True
      | Some _ \<Rightarrow> False)"

section \<open>A concrete environment\<close>

text \<open>
  Stand-ins for the collaborators, used to run the definitions on concrete inputs:
  a JSON parser that knows the text \<^verbatim>\<open>null\<close>, a WKT parser that knows one point,
  a translation that returns the template, a CSV converter for seven texts, XML converters
  that return fixed features.
\<close>

definition point_2_1 :: jsval where
  "point_2_1 =
     JObject [(''type'', JStr ''Point''),
              (''coordinates'', JArray [JNum (Finite 2.5), JNum (Finite 1.5)])]"

definition row_A :: feature where
  "row_A = \<lparr>geometry = JNull, properties = [(''name'', JStr ''A''), (''city'', JStr ''B'')]\<rparr>"

definition row_wkt :: feature where
  "row_wkt = \<lparr>geometry = JNull,
             properties = [(''name'', JStr ''A''), (''wkt'', JStr ''POINT(2.5 1.5)'')]\<rparr>"

definition row_bare :: feature where
  "row_bare = \<lparr>geometry = JNull, properties = [(''name'', JStr ''C'')]\<rparr>"

definition row_B :: feature where
  "row_B = \<lparr>geometry = point_2_1, properties = [(''name'', JStr ''B'')]\<rparr>"

definition bad_row :: string where
  "bad_row = ''A row contained an invalid value for latitude or longitude''"

definition row_garbage :: feature where
  "row_garbage = \<lparr>geometry = JNull,
                 properties = [(''name'', JStr ''A''), (''geom'', JStr ''garbage'')]\<rparr>"

definition gpx_wpt :: feature where
  "gpx_wpt = \<lparr>geometry = point_2_1,
             properties = [(''name'', JStr ''A''), (''desc'', JStr ''hello''),
                           (''_gpxType'', JStr ''wpt''), (''links'', JArray [])]\<rparr>"

definition gpx_plain :: feature where
  "gpx_plain = \<lparr>geometry = point_2_1, properties = [(''name'', JStr ''A'')]\<rparr>"

definition kml_placemark :: feature where
  "kml_placemark = \<lparr>geometry = point_2_1,
                   properties = [(''desc'', JStr ''hello''), (''_private'', JStr ''x''),
                                 (''timespan'', JObject [])]\<rparr>"

definition LF :: string where
  "LF = [CHR 0x0A]"

definition sample_env :: "string env" where
  "sample_env =
     \<lparr>JSON_parse = (\<lambda>v. if v = JStr ''null'' then Inr JNull else Inl SyntaxError),
      import_betterknown = None,
      wktToGeoJSON = (\<lambda>v. if v = JStr ''POINT(2.5 1.5)'' then Inr point_2_1 else Inl TypeError),
      translate = (\<lambda>template params. template),
      csv2geojson = (\<lambda>s.
         if s = ''name,city'' @ LF @ ''A,B'' then (None, Some [row_A])
         else if s = ''name,city'' @ LF @ ''A,B'' @ LF then (None, Some [row_A])
         else if s = ''name,wkt'' @ LF @ ''A,POINT(2.5 1.5)'' @ LF @ ''C'' then (None, Some [row_wkt, row_bare])
         else if s = ''name,geom'' @ LF @ ''A,garbage'' then (Some (ErrRows [bad_row]), Some [row_garbage])
         else if s = ''name,lat,lon'' then (None, Some [])
         else if s = ''name,lat,lon'' @ LF @ ''A,x,y'' then (Some (ErrRows [bad_row]), Some [])
         else if s = ''name,lat,lon'' @ LF @ ''A,x,y'' @ LF @ ''B,1.5,2.5''
           then (Some (ErrRows [bad_row]), Some [row_B])
         else (Some (ErrObject ''Could not autodetect delimiter''), None)),
      parseFromString = (\<lambda>s. s),
      parsererror = (\<lambda>d. d = []),
      import_togeojson = None,
      togeojson_gpx = (\<lambda>d.
         if d = ''<gpx>plain</gpx>'' then Inr (Some [gpx_plain])
         else Inr (Some [gpx_wpt])),
      togeojson_kml = (\<lambda>d. Inr (Some [kml_placemark])),
      osmtogeojson = (\<lambda>src. Inr (Some [])),
      import_georss = None,
      GeoRSS_parse = (\<lambda>d. Inr (Some [])),
      Number_toString = (\<lambda>r. if r = 2.5 then ''2.5'' else if r = 1.5 then ''1.5'' else ''0'')\<rparr>"




section \<open>The geometry text resolver returns\<close>

lemma parseTextGeom_returns: "\<exists>v. parseTextGeom env geom = Inr v"
  by (simp add: parseTextGeom_def split: sum.split option.split)

text \<open>
  Claim C6.  For every input the geometry text resolver returns a value and never throws.
  When \<^verbatim>\<open>JSON.parse\<close> succeeds, its value is returned as it is.  When it throws, the
  WKT parser is tried and its value returned.  When the WKT module cannot be loaded or
  the WKT parser throws, the resolver returns \<^verbatim>\<open>null\<close>.
\<close>

theorem parseTextGeom_total:
  "(\<exists>v. parseTextGeom env geom = Inr v) \<and>
   (\<forall>v. JSON_parse env geom = Inr v \<longrightarrow> parseTextGeom env geom = Inr v) \<and>
   (\<forall>e g. JSON_parse env geom = Inl e \<longrightarrow> import_betterknown env = None \<longrightarrow>
      wktToGeoJSON env geom = Inr g \<longrightarrow> parseTextGeom env geom = Inr g) \<and>
   (\<forall>e. JSON_parse env geom = Inl e \<longrightarrow>
      (import_betterknown env \<noteq> None \<or> (\<exists>e2. wktToGeoJSON env geom = Inl e2)) \<longrightarrow>
      parseTextGeom env geom = Inr JNull)"
proof (intro conjI allI impI)
  show "\<exists>v. parseTextGeom env geom = Inr v"
    by (rule parseTextGeom_returns)
next
  fix v assume "JSON_parse env geom = Inr v"
  then show "parseTextGeom env geom = Inr v"
    by (simp add: parseTextGeom_def)
next
  fix e g
  assume "JSON_parse env geom = Inl e" "import_betterknown env = None"
    "wktToGeoJSON env geom = Inr g"
  then show "parseTextGeom env geom = Inr g"
    by (simp add: parseTextGeom_def)
next
  fix e
  assume "JSON_parse env geom = Inl e"
    and "import_betterknown env \<noteq> None \<or> (\<exists>e2. wktToGeoJSON env geom = Inl e2)"
  then show "parseTextGeom env geom = Inr JNull"
    by (auto simp: parseTextGeom_def split: option.split)
qed

text \<open>
  The resolver on the sample collaborators: JSON text, WKT text and text that is neither.
\<close>

theorem parseTextGeom_total_witness:
  "JSON_parse sample_env (JStr ''null'') = Inr JNull \<and>
   parseTextGeom sample_env (JStr ''null'') = Inr JNull \<and>
   JSON_parse sample_env (JStr ''POINT(2.5 1.5)'') = Inl SyntaxError \<and>
   wktToGeoJSON sample_env (JStr ''POINT(2.5 1.5)'') = Inr point_2_1 \<and>
   parseTextGeom sample_env (JStr ''POINT(2.5 1.5)'') = Inr point_2_1 \<and>
   JSON_parse sample_env (JStr ''garbage'') = Inl SyntaxError \<and>
   wktToGeoJSON sample_env (JStr ''garbage'') = Inl TypeError \<and>
   parseTextGeom sample_env (JStr ''garbage'') = Inr JNull"
proof -
  have j1: "JSON_parse sample_env (JStr ''null'') = Inr JNull"
    by (simp add: sample_env_def)
  have j2: "JSON_parse sample_env (JStr ''POINT(2.5 1.5)'') = Inl SyntaxError"
    by (simp add: sample_env_def)
  have j3: "JSON_parse sample_env (JStr ''garbage'') = Inl SyntaxError"
    by (simp add: sample_env_def)
  have i: "import_betterknown sample_env = None"
    by (simp add: sample_env_def)
  have w2: "wktToGeoJSON sample_env (JStr ''POINT(2.5 1.5)'') = Inr point_2_1"
    by (simp add: sample_env_def)
  have w3: "wktToGeoJSON sample_env (JStr ''garbage'') = Inl TypeError"
    by (simp add: sample_env_def)
  note t1 = parseTextGeom_total [of sample_env "JStr ''null''"]
  note t2 = parseTextGeom_total [of sample_env "JStr ''POINT(2.5 1.5)''"]
  note t3 = parseTextGeom_total [of sample_env "JStr ''garbage''"]
  from t1 j1 have r1: "parseTextGeom sample_env (JStr ''null'') = Inr JNull" by blast
  from t2 j2 i w2 have r2: "parseTextGeom sample_env (JStr ''POINT(2.5 1.5)'') = Inr point_2_1"
    by blast
  from t3 j3 w3 have r3: "parseTextGeom sample_env (JStr ''garbage'') = Inr JNull" by blast
  from j1 j2 j3 w2 w3 r1 r2 r3 show ?thesis by simp
qed

lemma rejects_undefined_null:
  "rejects_undefined env \<Longrightarrow> parseTextGeom env JUndefined = Inr JNull"
  by (auto simp: rejects_undefined_def parseTextGeom_def isl_def split: option.split sum.split)

section \<open>Reading and deleting properties\<close>

lemma has_key_map_of: "has_key ps k \<longleftrightarrow> map_of ps k \<noteq> None"
  by (simp add: has_key_def map_of_eq_None_iff)

lemma has_key_js_delete: "\<not> has_key (js_delete k ps) k"
  by (simp add: has_key_def js_delete_def delete_notin_dom)

lemma js_get_missing: "\<not> has_key ps k \<Longrightarrow> js_get ps k = JUndefined"
  by (simp add: has_key_def js_get_def map_of_eq_None_iff [THEN iffD2])

lemma js_get_js_delete_other: "k \<noteq> key \<Longrightarrow> js_get (js_delete key ps) k = js_get ps k"
  by (simp add: js_get_def js_delete_def delete_conv')

lemma js_get_js_delete_same: "js_get (js_delete k ps) k = JUndefined"
  by (simp add: js_get_def js_delete_def delete_conv')

lemma map_of_js_delete: "map_of (js_delete key ps) k = (if k = key then None else map_of ps k)"
  by (simp add: js_delete_def delete_conv')

section \<open>The CSV callback\<close>

lemma resolve_column_Inr:
  "\<exists>out. resolve_column env field fts = Inr out \<and> length out = length fts \<and>
     (\<forall>i < length fts.
        parseTextGeom env (js_get (properties (fts ! i)) field) = Inr (geometry (out ! i)) \<and>
        properties (out ! i) = js_delete field (properties (fts ! i)))"
proof (induction fts)
  case Nil
  show ?case by simp
next
  case (Cons ft fts)
  then obtain out where out: "resolve_column env field fts = Inr out" "length out = length fts"
    and each: "\<forall>i < length fts.
        parseTextGeom env (js_get (properties (fts ! i)) field) = Inr (geometry (out ! i)) \<and>
        properties (out ! i) = js_delete field (properties (fts ! i))"
    by blast
  obtain g where g: "parseTextGeom env (js_get (properties ft) field) = Inr g"
    using parseTextGeom_returns by blast
  let ?ft' = "ft\<lparr>geometry := g, properties := js_delete field (properties ft)\<rparr>"
  have r: "resolve_column env field (ft # fts) = Inr (?ft' # out)"
    using g out by simp
  have "\<forall>i < length (ft # fts).
        parseTextGeom env (js_get (properties ((ft # fts) ! i)) field) = Inr (geometry ((?ft' # out) ! i)) \<and>
        properties ((?ft' # out) ! i) = js_delete field (properties ((ft # fts) ! i))"
  proof (intro allI impI)
    fix i assume "i < length (ft # fts)"
    then show "parseTextGeom env (js_get (properties ((ft # fts) ! i)) field) = Inr (geometry ((?ft' # out) ! i)) \<and>
        properties ((?ft' # out) ! i) = js_delete field (properties ((ft # fts) ! i))"
      using g each by (cases i) simp_all
  qed
  with r out show ?case by simp
qed

lemma geom_loop_find:
  "geom_loop env names first fts =
     (case find (\<lambda>field. js_truthy (js_get (properties first) field)) names of
        None \<Rightarrow> Inr fts
      | Some c \<Rightarrow> resolve_column env c fts)"
  by (induction names) simp_all

lemma geom_loop_Inr:
  "\<exists>out. geom_loop env names first fts = Inr out \<and> length out = length fts"
proof (cases "find (\<lambda>field. js_truthy (js_get (properties first) field)) names")
  case None
  then show ?thesis by (simp add: geom_loop_find)
next
  case (Some c)
  with resolve_column_Inr [of env c fts] show ?thesis
    by (auto simp: geom_loop_find)
qed

lemma detect_geometry_null_first:
  assumes "geometry first = JNull"
  shows "\<exists>err' out. detect_geometry env err (Some (first # rest)) = Inr (err', Some out) \<and>
     geom_loop env geomFields first (first # rest) = Inr out \<and>
     length out = Suc (length rest) \<and>
     err' = (if geometry (hd out) = JNull then Some (ErrObject (translate env NO_GEO_COLUMN []))
             else err)"
proof -
  obtain out where out: "geom_loop env geomFields first (first # rest) = Inr out"
    and len: "length out = Suc (length rest)"
    using geom_loop_Inr [of env geomFields first "first # rest"] by auto
  then obtain f' fs' where cons: "out = f' # fs'"
    by (cases out) auto
  show ?thesis
    using assms out len cons by (simp add: detect_geometry_def)
qed

lemma report_fatal:
  "report env str (Some (ErrObject m)) =
     Inr (if length (split_lines str) \<le> 2 then [Console_debug (ErrObject m)]
          else [Alert_error m (Some 10000)])"
  by (simp add: report_def)

lemma report_rows:
  "report env str (Some (ErrRows (m # ms))) =
     Inr (if length (split_lines str) \<le> 2 then [Console_debug (ErrRows (m # ms))]
          else [Alert_error
                  (translate env ERRORS_DURING_IMPORT
                     [(''count'', JNum (Finite (real (Suc (length ms))))), (''message'', JStr m)])
                  (Some 10000)])"
  by (simp add: report_def)

lemma effects_on_converted:
  "detect_geometry env err result = Inr (err', result') \<Longrightarrow> report env str err' = Inr effs \<Longrightarrow>
   effects (on_converted env str err result) = effs"
  by (simp add: on_converted_def split: option.split list.split)

lemma delivered_on_converted:
  "detect_geometry env err result = Inr (err', Some (f # fs)) \<Longrightarrow> report env str err' = Inr effs \<Longrightarrow>
   delivered (on_converted env str err result) = Some (f # fs) \<and>
   threw (on_converted env str err result) = None"
  by (simp add: on_converted_def)

text \<open>
  The sample converter on a two-line text with no coordinate and no geometry column.
\<close>

lemma sample_csv_A:
  "csv2geojson sample_env (''name,city'' @ LF @ ''A,B'') = (None, Some [row_A])"
  by (simp add: sample_env_def LF_def)

lemma detect_A: "detect_geometry sample_env None (Some [row_A]) =
     Inr (Some (ErrObject NO_GEO_COLUMN), Some [row_A])"
  by (simp add: detect_geometry_def row_A_def geomFields_def js_get_def sample_env_def)

lemma lines_A: "length (split_lines (''name,city'' @ LF @ ''A,B'')) = 2"
  by (simp add: LF_def)

subsection \<open>The geometry column\<close>

text \<open>
  Claim C5.  For every CSV import whose first feature has a \<^verbatim>\<open>null\<close> geometry, the
  column used is the first of \<^verbatim>\<open>geom\<close>, \<^verbatim>\<open>geometry\<close>, \<^verbatim>\<open>wkt\<close>, \<^verbatim>\<open>geojson\<close> whose value on
  the first feature is truthy.  With that column, every feature gets as geometry what the
  geometry text resolver returns for the feature's value of the column, and loses the
  column, whatever the resolver returned.  The callback is not left early: all features
  are still there, and they are delivered unless the converter passed an empty error
  array.  A feature without the column hands \<^verbatim>\<open>undefined\<close> to the resolver, and its geometry
  is \<^verbatim>\<open>null\<close> when the two parsers refuse \<^verbatim>\<open>undefined\<close>.  With no truthy candidate the
  features are unchanged.
\<close>

theorem geometry_column_fallback:
  assumes conv: "csv2geojson env str = (err, Some (first # rest))"
    and null: "geometry first = JNull"
  shows "\<exists>err' out.
     detect_geometry env err (Some (first # rest)) = Inr (err', Some out) \<and>
     length out = Suc (length rest) \<and>
     (err' \<noteq> Some (ErrRows []) \<longrightarrow> delivered (fromCSV env str) = Some out) \<and>
     (case find (\<lambda>field. js_truthy (js_get (properties first) field)) geomFields of
        None \<Rightarrow> out = first # rest
      | Some c \<Rightarrow>
          (\<forall>i < length out.
             parseTextGeom env (js_get (properties ((first # rest) ! i)) c) =
               Inr (geometry (out ! i)) \<and>
             properties (out ! i) = js_delete c (properties ((first # rest) ! i)) \<and>
             \<not> has_key (properties (out ! i)) c \<and>
             (\<not> has_key (properties ((first # rest) ! i)) c \<longrightarrow>
                js_get (properties ((first # rest) ! i)) c = JUndefined \<and>
                (rejects_undefined env \<longrightarrow> geometry (out ! i) = JNull))))"
proof -
  let ?fts = "first # rest"
  obtain err' out where d: "detect_geometry env err (Some ?fts) = Inr (err', Some out)"
    and loop: "geom_loop env geomFields first ?fts = Inr out"
    and len: "length out = Suc (length rest)"
    using detect_geometry_null_first [OF null] by blast
  obtain f' fs' where cons: "out = f' # fs'"
    using len by (cases out) auto
  have deliv: "delivered (fromCSV env str) = Some out" if "err' \<noteq> Some (ErrRows [])"
  proof -
    have "\<exists>effs. report env str err' = Inr effs"
    proof (cases err')
      case None
      then show ?thesis by (simp add: report_def)
    next
      case (Some e)
      show ?thesis
      proof (cases e)
        case (ErrObject m)
        with Some show ?thesis by (simp add: report_fatal)
      next
        case (ErrRows ms)
        with Some that obtain m ms' where "ms = m # ms'" by (cases ms) auto
        with Some ErrRows show ?thesis by (simp add: report_rows)
      qed
    qed
    then obtain effs where "report env str err' = Inr effs" ..
    with delivered_on_converted [of env err "Some ?fts" err' f' fs' str effs] d cons conv
    show ?thesis by (simp add: fromCSV_def)
  qed
  have body: "case find (\<lambda>field. js_truthy (js_get (properties first) field)) geomFields of
        None \<Rightarrow> out = ?fts
      | Some c \<Rightarrow>
          (\<forall>i < length out.
             parseTextGeom env (js_get (properties (?fts ! i)) c) = Inr (geometry (out ! i)) \<and>
             properties (out ! i) = js_delete c (properties (?fts ! i)) \<and>
             \<not> has_key (properties (out ! i)) c \<and>
             (\<not> has_key (properties (?fts ! i)) c \<longrightarrow>
                js_get (properties (?fts ! i)) c = JUndefined \<and>
                (rejects_undefined env \<longrightarrow> geometry (out ! i) = JNull)))"
  proof (cases "find (\<lambda>field. js_truthy (js_get (properties first) field)) geomFields")
    case None
    with loop show ?thesis by (simp add: geom_loop_find)
  next
    case (Some c)
    with loop have rc: "resolve_column env c ?fts = Inr out"
      by (simp add: geom_loop_find)
    from resolve_column_Inr [of env c ?fts] rc
    have each: "\<forall>i < length ?fts.
        parseTextGeom env (js_get (properties (?fts ! i)) c) = Inr (geometry (out ! i)) \<and>
        properties (out ! i) = js_delete c (properties (?fts ! i))"
      by auto
    have "\<forall>i < length out.
             parseTextGeom env (js_get (properties (?fts ! i)) c) = Inr (geometry (out ! i)) \<and>
             properties (out ! i) = js_delete c (properties (?fts ! i)) \<and>
             \<not> has_key (properties (out ! i)) c \<and>
             (\<not> has_key (properties (?fts ! i)) c \<longrightarrow>
                js_get (properties (?fts ! i)) c = JUndefined \<and>
                (rejects_undefined env \<longrightarrow> geometry (out ! i) = JNull))"
    proof (intro allI impI)
      fix i assume "i < length out"
      with len have i: "i < length ?fts" by simp
      with each have p: "parseTextGeom env (js_get (properties (?fts ! i)) c) = Inr (geometry (out ! i))"
        and q: "properties (out ! i) = js_delete c (properties (?fts ! i))"
        by blast+
      have k: "\<not> has_key (properties (out ! i)) c"
        unfolding q by (rule has_key_js_delete)
      have m: "js_get (properties (?fts ! i)) c = JUndefined \<and>
                (rejects_undefined env \<longrightarrow> geometry (out ! i) = JNull)"
        if "\<not> has_key (properties (?fts ! i)) c"
      proof -
        from that have u: "js_get (properties (?fts ! i)) c = JUndefined"
          by (rule js_get_missing)
        with p rejects_undefined_null [of env] show ?thesis by auto
      qed
      from p q k m
      show "parseTextGeom env (js_get (properties (?fts ! i)) c) = Inr (geometry (out ! i)) \<and>
             properties (out ! i) = js_delete c (properties (?fts ! i)) \<and>
             \<not> has_key (properties (out ! i)) c \<and>
             (\<not> has_key (properties (?fts ! i)) c \<longrightarrow>
                js_get (properties (?fts ! i)) c = JUndefined \<and>
                (rejects_undefined env \<longrightarrow> geometry (out ! i) = JNull))"
        by blast
    qed
    with Some show ?thesis by (simp only: option.case)
  qed
  from d len deliv body show ?thesis by blast
qed

text \<open>
  Two rows, the second without the \<^verbatim>\<open>wkt\<close> column: the first gets the point, the second
  \<^verbatim>\<open>null\<close>, both lose the column and both are delivered.
\<close>

theorem geometry_column_fallback_witness:
  "csv2geojson sample_env (''name,wkt'' @ LF @ ''A,POINT(2.5 1.5)'' @ LF @ ''C'') =
     (None, Some [row_wkt, row_bare]) \<and>
   geometry row_wkt = JNull \<and>
   find (\<lambda>field. js_truthy (js_get (properties row_wkt) field)) geomFields = Some ''wkt'' \<and>
   \<not> has_key (properties row_bare) ''wkt'' \<and>
   rejects_undefined sample_env \<and>
   (\<exists>out. delivered (fromCSV sample_env (''name,wkt'' @ LF @ ''A,POINT(2.5 1.5)'' @ LF @ ''C'')) =
            Some out \<and>
          length out = 2 \<and>
          geometry (out ! 0) = point_2_1 \<and>
          properties (out ! 0) = [(''name'', JStr ''A'')] \<and>
          geometry (out ! 1) = JNull \<and>
          properties (out ! 1) = [(''name'', JStr ''C'')])"
proof -
  let ?str = "''name,wkt'' @ LF @ ''A,POINT(2.5 1.5)'' @ LF @ ''C''"
  have conv: "csv2geojson sample_env ?str = (None, Some (row_wkt # [row_bare]))"
    by (simp add: sample_env_def LF_def)
  have null: "geometry row_wkt = JNull"
    by (simp add: row_wkt_def)
  have chosen: "find (\<lambda>field. js_truthy (js_get (properties row_wkt) field)) geomFields =
      Some ''wkt''"
    by (simp add: geomFields_def row_wkt_def js_get_def)
  have lacking: "\<not> has_key (properties row_bare) ''wkt''"
    by (simp add: row_bare_def has_key_def)
  have rej: "rejects_undefined sample_env"
    by (simp add: rejects_undefined_def sample_env_def)
  have point: "parseTextGeom sample_env (js_get (properties row_wkt) ''wkt'') = Inr point_2_1"
    by (simp add: row_wkt_def js_get_def parseTextGeom_def sample_env_def)
  have p0: "js_delete ''wkt'' (properties row_wkt) = [(''name'', JStr ''A'')]"
    by (simp add: row_wkt_def js_delete_def)
  have p1: "js_delete ''wkt'' (properties row_bare) = [(''name'', JStr ''C'')]"
    by (simp add: row_bare_def js_delete_def)
  from geometry_column_fallback [OF conv null, unfolded chosen option.case]
  obtain err' out where
    d: "detect_geometry sample_env None (Some [row_wkt, row_bare]) = Inr (err', Some out)"
    and len': "length out = Suc (length [row_bare])"
    and deliv: "err' \<noteq> Some (ErrRows []) \<longrightarrow> delivered (fromCSV sample_env ?str) = Some out"
    and each: "\<forall>i < length out.
             parseTextGeom sample_env (js_get (properties ([row_wkt, row_bare] ! i)) ''wkt'') =
               Inr (geometry (out ! i)) \<and>
             properties (out ! i) = js_delete ''wkt'' (properties ([row_wkt, row_bare] ! i)) \<and>
             \<not> has_key (properties (out ! i)) ''wkt'' \<and>
             (\<not> has_key (properties ([row_wkt, row_bare] ! i)) ''wkt'' \<longrightarrow>
                js_get (properties ([row_wkt, row_bare] ! i)) ''wkt'' = JUndefined \<and>
                (rejects_undefined sample_env \<longrightarrow> geometry (out ! i) = JNull))"
    by blast
  from len' have len: "length out = 2" by simp
  from len have i0: "0 < length out" and i1: "1 < length out" by simp_all
  from each [rule_format, OF i0] have e0:
    "parseTextGeom sample_env (js_get (properties row_wkt) ''wkt'') = Inr (geometry (out ! 0))"
    "properties (out ! 0) = js_delete ''wkt'' (properties row_wkt)"
    by simp_all
  from each [rule_format, OF i1] have e1:
    "properties (out ! 1) = js_delete ''wkt'' (properties row_bare)"
    "\<not> has_key (properties row_bare) ''wkt'' \<longrightarrow>
       (rejects_undefined sample_env \<longrightarrow> geometry (out ! 1) = JNull)"
    by simp_all
  from e0 point p0 have r0: "geometry (out ! 0) = point_2_1"
    "properties (out ! 0) = [(''name'', JStr ''A'')]"
    by simp_all
  from e1 lacking rej p1 have r1: "geometry (out ! 1) = JNull"
    "properties (out ! 1) = [(''name'', JStr ''C'')]"
    by simp_all
  have "err' \<noteq> Some (ErrRows [])"
  proof -
    from r0 have "geometry (hd out) \<noteq> JNull"
      using len by (cases out) (simp_all add: point_2_1_def)
    moreover from detect_geometry_null_first [OF null, of sample_env None "[row_bare]"] d
    have "err' = (if geometry (hd out) = JNull
                  then Some (ErrObject (translate sample_env NO_GEO_COLUMN [])) else None)"
      by auto
    ultimately show ?thesis by simp
  qed
  with deliv have "delivered (fromCSV sample_env ?str) = Some out" by blast
  with conv null chosen lacking rej len r0 r1 show ?thesis by auto
qed

subsection \<open>No geometry column\<close>

text \<open>
  Claim C2, as the code has it.  When the first feature has a \<^verbatim>\<open>null\<close> geometry and no
  truthy candidate column of the first feature resolves to a geometry other than
  \<^verbatim>\<open>null\<close>, the error becomes the single error with the translated "no geo column found"
  message, whatever error the converter passed.  The collection is delivered to the
  caller all the same, with as many features as the converter produced.
\<close>

theorem no_geo_column_fatal:
  assumes conv: "csv2geojson env str = (err, Some (first # rest))"
    and null: "geometry first = JNull"
    and none: "\<forall>field \<in> set geomFields. js_truthy (js_get (properties first) field) \<longrightarrow>
                 parseTextGeom env (js_get (properties first) field) = Inr JNull"
  shows "\<exists>out. detect_geometry env err (Some (first # rest)) =
             Inr (Some (ErrObject (translate env NO_GEO_COLUMN [])), Some out) \<and>
           length out = Suc (length rest) \<and>
           delivered (fromCSV env str) = Some out \<and>
           threw (fromCSV env str) = None"
proof -
  obtain err' out where d: "detect_geometry env err (Some (first # rest)) = Inr (err', Some out)"
    and loop: "geom_loop env geomFields first (first # rest) = Inr out"
    and len: "length out = Suc (length rest)"
    and err': "err' = (if geometry (hd out) = JNull
                       then Some (ErrObject (translate env NO_GEO_COLUMN [])) else err)"
    using detect_geometry_null_first [OF null] by blast
  obtain f' fs' where cons: "out = f' # fs'"
    using len by (cases out) auto
  have "geometry f' = JNull"
  proof (cases "find (\<lambda>field. js_truthy (js_get (properties first) field)) geomFields")
    case None
    with loop cons null show ?thesis by (simp add: geom_loop_find)
  next
    case (Some c)
    then have c: "c \<in> set geomFields" "js_truthy (js_get (properties first) c)"
      by (auto simp: find_Some_iff)
    with none have g: "parseTextGeom env (js_get (properties first) c) = Inr JNull"
      by blast
    from Some loop have "resolve_column env c (first # rest) = Inr out"
      by (simp add: geom_loop_find)
    with g cons show ?thesis
      by (auto split: sum.splits)
  qed
  with err' cons have e: "err' = Some (ErrObject (translate env NO_GEO_COLUMN []))"
    by simp
  from d e cons have d': "detect_geometry env err (Some (first # rest)) =
      Inr (Some (ErrObject (translate env NO_GEO_COLUMN [])), Some (f' # fs'))"
    by simp
  from delivered_on_converted [OF d' report_fatal] conv cons
  have "delivered (fromCSV env str) = Some out \<and> threw (fromCSV env str) = None"
    by (simp add: fromCSV_def)
  with d e len show ?thesis by blast
qed

text \<open>
  A row whose \<^verbatim>\<open>geom\<close> column holds text that no parser accepts, with a row error from
  the converter: the row error is replaced and the row is delivered.
\<close>

theorem no_geo_column_fatal_witness:
  "csv2geojson sample_env (''name,geom'' @ LF @ ''A,garbage'') =
     (Some (ErrRows [bad_row]), Some [row_garbage]) \<and>
   geometry row_garbage = JNull \<and>
   parseTextGeom sample_env (js_get (properties row_garbage) ''geom'') = Inr JNull \<and>
   (\<exists>out. detect_geometry sample_env (Some (ErrRows [bad_row])) (Some [row_garbage]) =
            Inr (Some (ErrObject (translate sample_env NO_GEO_COLUMN [])), Some out) \<and>
          length out = 1 \<and>
          delivered (fromCSV sample_env (''name,geom'' @ LF @ ''A,garbage'')) = Some out \<and>
          threw (fromCSV sample_env (''name,geom'' @ LF @ ''A,garbage'')) = None)"
proof -
  have c: "csv2geojson sample_env (''name,geom'' @ LF @ ''A,garbage'') =
     (Some (ErrRows [bad_row]), Some [row_garbage])"
    by (simp add: sample_env_def LF_def)
  have g: "geometry row_garbage = JNull"
    by (simp add: row_garbage_def)
  have p: "parseTextGeom sample_env (js_get (properties row_garbage) ''geom'') = Inr JNull"
    by (simp add: row_garbage_def js_get_def parseTextGeom_def sample_env_def)
  have n: "\<forall>field \<in> set geomFields. js_truthy (js_get (properties row_garbage) field) \<longrightarrow>
     parseTextGeom sample_env (js_get (properties row_garbage) field) = Inr JNull"
    using p by (simp add: geomFields_def row_garbage_def js_get_def)
  from no_geo_column_fatal [OF c g n] c g p show ?thesis by simp
qed

text \<open>
  Against claim C2 as stated ("zero features are delivered"): a two-line text with
  columns \<^verbatim>\<open>name\<close> and \<^verbatim>\<open>city\<close> gets the fatal error, and its one feature is passed to
  the callback.
\<close>

theorem no_geo_column_delivered_counterexample:
  "csv2geojson sample_env (''name,city'' @ LF @ ''A,B'') = (None, Some [row_A]) \<and>
   geometry row_A = JNull \<and>
   js_get (properties row_A) ''geom'' = JUndefined \<and>
   js_get (properties row_A) ''geometry'' = JUndefined \<and>
   js_get (properties row_A) ''wkt'' = JUndefined \<and>
   js_get (properties row_A) ''geojson'' = JUndefined \<and>
   detect_geometry sample_env None (Some [row_A]) =
     Inr (Some (ErrObject NO_GEO_COLUMN), Some [row_A]) \<and>
   delivered (fromCSV sample_env (''name,city'' @ LF @ ''A,B'')) = Some [row_A]"
proof -
  have g: "geometry row_A = JNull"
    by (simp add: row_A_def)
  have f: "js_get (properties row_A) ''geom'' = JUndefined"
    "js_get (properties row_A) ''geometry'' = JUndefined"
    "js_get (properties row_A) ''wkt'' = JUndefined"
    "js_get (properties row_A) ''geojson'' = JUndefined"
    by (simp_all add: row_A_def js_get_def)
  have d: "delivered (fromCSV sample_env (''name,city'' @ LF @ ''A,B'')) = Some [row_A]"
    using sample_csv_A detect_A by (simp add: fromCSV_def on_converted_def report_def)
  from sample_csv_A g f detect_A d show ?thesis by simp
qed

subsection \<open>Reporting\<close>

text \<open>
  Claim C1, as the code has it.  When the error of a CSV import is a single error object
  (the "no geo column found" error included), its message goes to \<^verbatim>\<open>Alert.error\<close> with
  the duration 10000 if the raw text splits into more than two lines; with two or fewer
  lines the error is logged with \<^verbatim>\<open>console.debug\<close> and no alert is raised.
\<close>

theorem fatal_error_report:
  assumes "csv2geojson env str = (err, result)"
    and "detect_geometry env err result = Inr (Some (ErrObject m), result')"
  shows "effects (fromCSV env str) =
     (if length (split_lines str) \<le> 2 then [Console_debug (ErrObject m)]
      else [Alert_error m (Some 10000)])"
  using assms effects_on_converted [OF assms(2) report_fatal]
  by (simp add: fromCSV_def)

text \<open>
  The delimiter error of the sample converter, on three lines and on one, and the
  "no geo column found" error on a text of two rows that ends with a line break.
\<close>

theorem fatal_error_report_witness:
  "effects (fromCSV sample_env (''a'' @ LF @ ''b'' @ LF @ ''c'')) =
     [Alert_error ''Could not autodetect delimiter'' (Some 10000)] \<and>
   effects (fromCSV sample_env ''a'') =
     [Console_debug (ErrObject ''Could not autodetect delimiter'')] \<and>
   effects (fromCSV sample_env (''name,city'' @ LF @ ''A,B'' @ LF)) =
     [Alert_error NO_GEO_COLUMN (Some 10000)]"
proof -
  have cA: "csv2geojson sample_env (''name,city'' @ LF @ ''A,B'' @ LF) = (None, Some [row_A])"
    by (simp add: sample_env_def LF_def)
  have lA: "length (split_lines (''name,city'' @ LF @ ''A,B'' @ LF)) = 3"
    by (simp add: LF_def)
  let ?e = "Some (ErrObject ''Could not autodetect delimiter'')"
  have c3: "csv2geojson sample_env (''a'' @ LF @ ''b'' @ LF @ ''c'') = (?e, None)"
    by (simp add: sample_env_def LF_def)
  have c1: "csv2geojson sample_env ''a'' = (?e, None)"
    by (simp add: sample_env_def LF_def)
  have d: "detect_geometry sample_env ?e None = Inr (?e, None)"
    by (simp add: detect_geometry_def)
  have l3: "length (split_lines (''a'' @ LF @ ''b'' @ LF @ ''c'')) = 3"
    by (simp add: LF_def)
  have l1: "length (split_lines ''a'') = 1"
    by simp
  from fatal_error_report [OF c3 d] fatal_error_report [OF c1 d]
    fatal_error_report [OF cA detect_A] l3 l1 lA
  show ?thesis by simp
qed

text \<open>
  Against claim C1 as stated ("for every raw input text, including two or fewer lines"):
  the two-line text gets the fatal error and no alert.
\<close>

theorem fatal_error_two_lines_counterexample:
  "csv2geojson sample_env (''name,city'' @ LF @ ''A,B'') = (None, Some [row_A]) \<and>
   detect_geometry sample_env None (Some [row_A]) =
     Inr (Some (ErrObject NO_GEO_COLUMN), Some [row_A]) \<and>
   length (split_lines (''name,city'' @ LF @ ''A,B'')) = 2 \<and>
   effects (fromCSV sample_env (''name,city'' @ LF @ ''A,B'')) =
     [Console_debug (ErrObject NO_GEO_COLUMN)]"
  using sample_csv_A detect_A lines_A
  by (simp add: fromCSV_def on_converted_def report_def)

text \<open>
  Claim C4.  When the error of a CSV import is an array of row errors: if the raw text
  splits into two or fewer lines, the error is logged with \<^verbatim>\<open>console.debug\<close> and no
  alert is raised; with more than two lines, the translation of the template
  \<^verbatim>\<open>{count} errors during import: {message}\<close> with the number of errors and the first
  error's message goes to \<^verbatim>\<open>Alert.error\<close>, duration 10000.
\<close>

theorem row_errors_report:
  assumes "csv2geojson env str = (err, result)"
    and "detect_geometry env err result = Inr (Some (ErrRows (m # ms)), result')"
  shows "effects (fromCSV env str) =
     (if length (split_lines str) \<le> 2 then [Console_debug (ErrRows (m # ms))]
      else [Alert_error
              (translate env ERRORS_DURING_IMPORT
                 [(''count'', JNum (Finite (real (Suc (length ms))))), (''message'', JStr m)])
              (Some 10000)])"
  using assms effects_on_converted [OF assms(2) report_rows]
  by (simp add: fromCSV_def)

text \<open>
  One row error, on a two-line text and on a three-line text.
\<close>

theorem row_errors_report_witness:
  "effects (fromCSV sample_env (''name,lat,lon'' @ LF @ ''A,x,y'')) =
     [Console_debug (ErrRows [bad_row])] \<and>
   effects (fromCSV sample_env (''name,lat,lon'' @ LF @ ''A,x,y'' @ LF @ ''B,1.5,2.5'')) =
     [Alert_error
        (translate sample_env ERRORS_DURING_IMPORT
           [(''count'', JNum (Finite 1)), (''message'', JStr bad_row)])
        (Some 10000)]"
proof -
  let ?e = "Some (ErrRows [bad_row])"
  have c2: "csv2geojson sample_env (''name,lat,lon'' @ LF @ ''A,x,y'') = (?e, Some [])"
    by (simp add: sample_env_def LF_def)
  have c3: "csv2geojson sample_env (''name,lat,lon'' @ LF @ ''A,x,y'' @ LF @ ''B,1.5,2.5'') =
      (?e, Some [row_B])"
    by (simp add: sample_env_def LF_def)
  have d2: "detect_geometry sample_env ?e (Some []) = Inr (?e, Some [])"
    by (simp add: detect_geometry_def)
  have d3: "detect_geometry sample_env ?e (Some [row_B]) = Inr (?e, Some [row_B])"
    by (simp add: detect_geometry_def row_B_def point_2_1_def)
  have l2: "length (split_lines (''name,lat,lon'' @ LF @ ''A,x,y'')) = 2"
    by (simp add: LF_def)
  have l3: "length (split_lines (''name,lat,lon'' @ LF @ ''A,x,y'' @ LF @ ''B,1.5,2.5'')) = 3"
    by (simp add: LF_def)
  from row_errors_report [OF c2 d2] row_errors_report [OF c3 d3] l2 l3
  show ?thesis by simp
qed

subsection \<open>No features\<close>

text \<open>
  Claim C9.  When the converter passes no result, or a result with no features, the
  callback of \<^verbatim>\<open>fromCSV\<close> is not called, and the promise of \<^verbatim>\<open>parse(text, 'csv')\<close> stays
  pending: it is neither fulfilled nor rejected.
\<close>

theorem csv_without_features_pending:
  assumes "csv2geojson env str = (err, result)"
    and "result = None \<or> result = Some []"
  shows "delivered (fromCSV env str) = None \<and> snd (parse env str ''csv'') = Pending"
proof -
  from assms(2) have d: "detect_geometry env err result = Inr (err, result)"
    by (auto simp: detect_geometry_def)
  from assms(2) d have "delivered (on_converted env str err result) = None"
    by (auto simp: on_converted_def split: sum.split)
  with assms(1) have "delivered (fromCSV env str) = None"
    by (simp add: fromCSV_def)
  then show ?thesis by (simp add: parse_def Let_def)
qed

text \<open>
  A header line alone, and a text whose delimiter the sample converter cannot detect.
\<close>

theorem csv_without_features_pending_witness:
  "csv2geojson sample_env ''name,lat,lon'' = (None, Some []) \<and>
   delivered (fromCSV sample_env ''name,lat,lon'') = None \<and>
   snd (parse sample_env ''name,lat,lon'' ''csv'') = Pending \<and>
   csv2geojson sample_env ''a'' = (Some (ErrObject ''Could not autodetect delimiter''), None) \<and>
   delivered (fromCSV sample_env ''a'') = None \<and>
   snd (parse sample_env ''a'' ''csv'') = Pending"
proof -
  have c0: "csv2geojson sample_env ''name,lat,lon'' = (None, Some [])"
    by (simp add: sample_env_def LF_def)
  have c1: "csv2geojson sample_env ''a'' = (Some (ErrObject ''Could not autodetect delimiter''), None)"
    by (simp add: sample_env_def LF_def)
  have h0: "Some [] = None \<or> Some ([] :: feature list) = Some []" by simp
  have h1: "(None :: feature list option) = None \<or> (None :: feature list option) = Some []" by simp
  from csv_without_features_pending [OF c0 h0] csv_without_features_pending [OF c1 h1] c0 c1
  show ?thesis by simp
qed

section \<open>GPX and KML\<close>

lemma map_of_strip_keys:
  "map_of (strip_keys keys ps) k =
     (if k \<in> set keys \<and> (startsWith_underscore k \<or> js_typeof (js_get ps k) = ''object'')
      then None else map_of ps k)"
proof (induction keys arbitrary: ps)
  case Nil
  show ?case by simp
next
  case (Cons key keys)
  define drop where
    "drop \<longleftrightarrow> startsWith_underscore key \<or> js_typeof (js_get ps key) = ''object''"
  define ps' where "ps' = (if drop then js_delete key ps else ps)"
  have step: "strip_keys (key # keys) ps = strip_keys keys ps'"
    by (simp add: ps'_def drop_def)
  have ih: "map_of (strip_keys keys ps') k =
     (if k \<in> set keys \<and> (startsWith_underscore k \<or> js_typeof (js_get ps' k) = ''object'')
      then None else map_of ps' k)"
    by (rule Cons.IH)
  show ?case
  proof (cases "k = key")
    case True
    show ?thesis
    proof (cases drop)
      case True
      with \<open>k = key\<close> have "map_of ps' k = None" "js_get ps' k = JUndefined"
        by (simp_all add: ps'_def map_of_js_delete js_get_js_delete_same)
      with True \<open>k = key\<close> show ?thesis
        unfolding step ih by (simp add: drop_def)
    next
      case False
      then have "ps' = ps" by (simp add: ps'_def)
      with False \<open>k = key\<close> show ?thesis
        unfolding step ih by (simp add: drop_def)
    qed
  next
    case False
    then have "map_of ps' k = map_of ps k" "js_get ps' k = js_get ps k"
      by (simp_all add: ps'_def map_of_js_delete js_get_js_delete_other)
    with False show ?thesis
      unfolding step ih by auto
  qed
qed

lemma map_of_gpx_feature:
  "map_of (properties (gpx_feature ft)) k =
     (let ps = js_set ''description'' (js_get (properties ft) ''desc'') (properties ft)
      in if startsWith_underscore k \<or> js_typeof (js_get ps k) = ''object'' then None
         else map_of ps k)"
proof -
  let ?ps = "js_set ''description'' (js_get (properties ft) ''desc'') (properties ft)"
  have "k \<notin> set (map fst ?ps) \<Longrightarrow> map_of ?ps k = None"
    by (simp add: map_of_eq_None_iff)
  then show ?thesis
    by (auto simp: gpx_feature_def Let_def map_of_strip_keys)
qed

lemma gpx_feature_clean:
  "has_key (properties (gpx_feature ft)) k \<Longrightarrow>
   \<not> startsWith_underscore k \<and> js_typeof (js_get (properties (gpx_feature ft)) k) \<noteq> ''object''"
  by (auto simp: has_key_map_of map_of_gpx_feature Let_def js_get_def split: if_splits)

lemma gpx_feature_description:
  "map_of (properties (gpx_feature ft)) ''description'' =
     (if js_typeof (js_get (properties ft) ''desc'') = ''object'' then None
      else Some (js_get (properties ft) ''desc''))"
  by (simp add: map_of_gpx_feature Let_def js_set_def update_conv' js_get_def
      startsWith_underscore_def)

lemma gpx_feature_geometry: "geometry (gpx_feature ft) = geometry ft"
  by (simp add: gpx_feature_def Let_def)

lemma fromGPX_features:
  assumes "import_togeojson env = None"
    and "togeojson_gpx env (snd (toDom env str)) = Inr (Some fts)"
  shows "snd (fromGPX env str) = Inr (Some (map gpx_feature fts))"
  using assms by (cases "toDom env str") (simp add: fromGPX_def)

lemma fromKML_unchanged:
  assumes "import_togeojson env = None"
  shows "snd (fromKML env str2) = togeojson_kml env (snd (toDom env str2))"
  using assms by (cases "toDom env str2") (simp add: fromKML_def)

lemma sample_toDom: "d \<noteq> [] \<Longrightarrow> toDom sample_env d = ([], d)"
  by (simp add: toDom_def sample_env_def)

lemma sample_import_togeojson: "import_togeojson sample_env = None"
  by (simp add: sample_env_def)

text \<open>
  Claim C3, as the code has it.  Every feature that \<^verbatim>\<open>fromGPX\<close> returns has no property
  whose key starts with \<^verbatim>\<open>_\<close> and none whose value has type \<^verbatim>\<open>object\<close>; its
  \<^verbatim>\<open>description\<close> reads the \<^verbatim>\<open>desc\<close> the converter supplied, unless that value has type
  \<^verbatim>\<open>object\<close>; its geometry is the converter's.  \<^verbatim>\<open>fromKML\<close> returns what the converter
  returned, unchanged.
\<close>

theorem gpx_cleaned_kml_unchanged:
  assumes "import_togeojson env = None"
    and "togeojson_gpx env (snd (toDom env str)) = Inr (Some fts)"
  shows "(\<exists>out. snd (fromGPX env str) = Inr (Some out) \<and> length out = length fts \<and>
            (\<forall>i < length fts.
               (\<forall>k. has_key (properties (out ! i)) k \<longrightarrow>
                  \<not> startsWith_underscore k \<and>
                  js_typeof (js_get (properties (out ! i)) k) \<noteq> ''object'') \<and>
               (js_typeof (js_get (properties (fts ! i)) ''desc'') \<noteq> ''object'' \<longrightarrow>
                  js_get (properties (out ! i)) ''description'' =
                    js_get (properties (fts ! i)) ''desc'') \<and>
               geometry (out ! i) = geometry (fts ! i))) \<and>
         snd (fromKML env str2) = togeojson_kml env (snd (toDom env str2))"
proof -
  have "snd (fromGPX env str) = Inr (Some (map gpx_feature fts))"
    using assms by (rule fromGPX_features)
  moreover have "\<forall>i < length fts.
               (\<forall>k. has_key (properties (map gpx_feature fts ! i)) k \<longrightarrow>
                  \<not> startsWith_underscore k \<and>
                  js_typeof (js_get (properties (map gpx_feature fts ! i)) k) \<noteq> ''object'') \<and>
               (js_typeof (js_get (properties (fts ! i)) ''desc'') \<noteq> ''object'' \<longrightarrow>
                  js_get (properties (map gpx_feature fts ! i)) ''description'' =
                    js_get (properties (fts ! i)) ''desc'') \<and>
               geometry (map gpx_feature fts ! i) = geometry (fts ! i)"
    using gpx_feature_clean
    by (simp add: gpx_feature_geometry) (simp add: js_get_def [of _ "''description''"] gpx_feature_description)
  moreover have "snd (fromKML env str2) = togeojson_kml env (snd (toDom env str2))"
    using assms(1) by (rule fromKML_unchanged)
  ultimately show ?thesis by simp
qed

text \<open>
  A waypoint with \<^verbatim>\<open>desc\<close>, \<^verbatim>\<open>_gpxType\<close> and \<^verbatim>\<open>links\<close>, and a placemark.
\<close>

theorem gpx_cleaned_kml_unchanged_witness:
  "togeojson_gpx sample_env (snd (toDom sample_env ''<gpx/>'')) = Inr (Some [gpx_wpt]) \<and>
   (\<exists>out. snd (fromGPX sample_env ''<gpx/>'') = Inr (Some out) \<and> length out = 1 \<and>
      js_get (properties (out ! 0)) ''description'' = JStr ''hello'' \<and>
      \<not> has_key (properties (out ! 0)) ''_gpxType'' \<and>
      geometry (out ! 0) = point_2_1) \<and>
   snd (fromKML sample_env ''<kml/>'') = Inr (Some [kml_placemark])"
proof -
  have conv: "togeojson_gpx sample_env (snd (toDom sample_env ''<gpx/>'')) = Inr (Some [gpx_wpt])"
    by (simp add: sample_toDom) (simp add: sample_env_def)
  have desc: "js_get (properties gpx_wpt) ''desc'' = JStr ''hello''"
    by (simp add: gpx_wpt_def js_get_def)
  have geo: "geometry gpx_wpt = point_2_1"
    by (simp add: gpx_wpt_def)
  have us: "startsWith_underscore ''_gpxType''"
    by (simp add: startsWith_underscore_def)
  have kml: "togeojson_kml sample_env (snd (toDom sample_env ''<kml/>'')) = Inr (Some [kml_placemark])"
    by (simp add: sample_env_def)
  from gpx_cleaned_kml_unchanged [OF sample_import_togeojson conv, of "''<kml/>''"]
  obtain out where out: "snd (fromGPX sample_env ''<gpx/>'') = Inr (Some out)" "length out = 1"
    and clean: "\<forall>k. has_key (properties (out ! 0)) k \<longrightarrow>
                  \<not> startsWith_underscore k \<and>
                  js_typeof (js_get (properties (out ! 0)) k) \<noteq> ''object''"
    and d: "js_typeof (js_get (properties gpx_wpt) ''desc'') \<noteq> ''object'' \<longrightarrow>
              js_get (properties (out ! 0)) ''description'' = js_get (properties gpx_wpt) ''desc''"
    and g: "geometry (out ! 0) = geometry gpx_wpt"
    and k: "snd (fromKML sample_env ''<kml/>'') =
              togeojson_kml sample_env (snd (toDom sample_env ''<kml/>''))"
    by auto
  from d desc have "js_get (properties (out ! 0)) ''description'' = JStr ''hello''"
    by simp
  moreover from clean us have "\<not> has_key (properties (out ! 0)) ''_gpxType''"
    by blast
  ultimately show ?thesis
    using conv out g geo k kml by auto
qed

text \<open>
  Against claim C3 as stated (which includes the KML adapter): a placemark keeps its
  \<^verbatim>\<open>_private\<close> key and its \<^verbatim>\<open>object\<close> value, and gets no \<^verbatim>\<open>description\<close>.
\<close>

theorem kml_not_cleaned_counterexample:
  "snd (fromKML sample_env ''<kml/>'') = Inr (Some [kml_placemark]) \<and>
   has_key (properties kml_placemark) ''_private'' \<and>
   startsWith_underscore ''_private'' \<and>
   js_typeof (js_get (properties kml_placemark) ''timespan'') = ''object'' \<and>
   js_get (properties kml_placemark) ''desc'' = JStr ''hello'' \<and>
   js_get (properties kml_placemark) ''description'' = JUndefined"
proof -
  have "snd (fromKML sample_env ''<kml/>'') = Inr (Some [kml_placemark])"
    by (simp add: fromKML_def sample_import_togeojson sample_toDom) (simp add: sample_env_def)
  then show ?thesis
    by (simp add: kml_placemark_def has_key_def startsWith_underscore_def js_get_def)
qed

lemma desc_is_text_typeof:
  "desc_is_text ft \<Longrightarrow> js_typeof (js_get (properties ft) ''desc'') \<noteq> ''object''"
  by (auto simp: desc_is_text_def js_get_def split: option.splits jsval.splits)

text \<open>
  Claim C10.  Every feature that \<^verbatim>\<open>fromGPX\<close> returns has the key \<^verbatim>\<open>description\<close>,
  also when the converter supplied no \<^verbatim>\<open>desc\<close>: the key is then there with the value
  \<^verbatim>\<open>undefined\<close>.  The converter hands over \<^verbatim>\<open>desc\<close> as text or not at all.
\<close>

theorem gpx_description_key:
  assumes "import_togeojson env = None"
    and "togeojson_gpx env (snd (toDom env str)) = Inr (Some fts)"
    and "\<forall>ft \<in> set fts. desc_is_text ft"
  shows "\<exists>out. snd (fromGPX env str) = Inr (Some out) \<and> length out = length fts \<and>
            (\<forall>i < length fts.
               has_key (properties (out ! i)) ''description'' \<and>
               (\<not> has_key (properties (fts ! i)) ''desc'' \<longrightarrow>
                  map_of (properties (out ! i)) ''description'' = Some JUndefined))"
proof -
  have "snd (fromGPX env str) = Inr (Some (map gpx_feature fts))"
    using assms(1,2) by (rule fromGPX_features)
  moreover have "\<forall>i < length fts.
               has_key (properties (map gpx_feature fts ! i)) ''description'' \<and>
               (\<not> has_key (properties (fts ! i)) ''desc'' \<longrightarrow>
                  map_of (properties (map gpx_feature fts ! i)) ''description'' = Some JUndefined)"
  proof (intro allI impI)
    fix i assume i: "i < length fts"
    with assms(3) have "desc_is_text (fts ! i)" by simp
    then have ty: "js_typeof (js_get (properties (fts ! i)) ''desc'') \<noteq> ''object''"
      by (rule desc_is_text_typeof)
    then have k: "has_key (properties (gpx_feature (fts ! i))) ''description''"
      by (simp add: has_key_map_of gpx_feature_description)
    have u: "map_of (properties (gpx_feature (fts ! i))) ''description'' = Some JUndefined"
      if "\<not> has_key (properties (fts ! i)) ''desc''"
      using that ty by (simp add: gpx_feature_description js_get_missing)
    from i k u
    show "has_key (properties (map gpx_feature fts ! i)) ''description'' \<and>
               (\<not> has_key (properties (fts ! i)) ''desc'' \<longrightarrow>
                  map_of (properties (map gpx_feature fts ! i)) ''description'' = Some JUndefined)"
      by simp
  qed
  ultimately show ?thesis by simp
qed

text \<open>
  A waypoint with a name only, and a waypoint with a \<^verbatim>\<open>desc\<close>.
\<close>

theorem gpx_description_key_witness:
  "togeojson_gpx sample_env (snd (toDom sample_env ''<gpx>plain</gpx>'')) = Inr (Some [gpx_plain]) \<and>
   desc_is_text gpx_plain \<and>
   \<not> has_key (properties gpx_plain) ''desc'' \<and>
   (\<exists>out. snd (fromGPX sample_env ''<gpx>plain</gpx>'') = Inr (Some out) \<and> length out = 1 \<and>
      has_key (properties (out ! 0)) ''description'' \<and>
      map_of (properties (out ! 0)) ''description'' = Some JUndefined) \<and>
   togeojson_gpx sample_env (snd (toDom sample_env ''<gpx/>'')) = Inr (Some [gpx_wpt]) \<and>
   desc_is_text gpx_wpt \<and>
   (\<exists>out. snd (fromGPX sample_env ''<gpx/>'') = Inr (Some out) \<and> length out = 1 \<and>
      has_key (properties (out ! 0)) ''description'')"
proof -
  have conv: "togeojson_gpx sample_env (snd (toDom sample_env ''<gpx>plain</gpx>'')) =
     Inr (Some [gpx_plain])"
    by (simp add: sample_toDom) (simp add: sample_env_def)
  have conv2: "togeojson_gpx sample_env (snd (toDom sample_env ''<gpx/>'')) = Inr (Some [gpx_wpt])"
    by (simp add: sample_toDom) (simp add: sample_env_def)
  have nodesc: "\<not> has_key (properties gpx_plain) ''desc''"
    by (simp add: gpx_plain_def has_key_def)
  have t1: "desc_is_text gpx_plain"
    by (simp add: desc_is_text_def gpx_plain_def)
  have t2: "desc_is_text gpx_wpt"
    by (simp add: desc_is_text_def gpx_wpt_def)
  from t1 have c1: "\<forall>ft \<in> set [gpx_plain]. desc_is_text ft" by simp
  from t2 have c2: "\<forall>ft \<in> set [gpx_wpt]. desc_is_text ft" by simp
  from gpx_description_key [OF sample_import_togeojson conv c1] nodesc
  have r1: "\<exists>out. snd (fromGPX sample_env ''<gpx>plain</gpx>'') = Inr (Some out) \<and> length out = 1 \<and>
      has_key (properties (out ! 0)) ''description'' \<and>
      map_of (properties (out ! 0)) ''description'' = Some JUndefined"
    by auto
  from gpx_description_key [OF sample_import_togeojson conv2 c2]
  have r2: "\<exists>out. snd (fromGPX sample_env ''<gpx/>'') = Inr (Some out) \<and> length out = 1 \<and>
      has_key (properties (out ! 0)) ''description''"
    by auto
  from conv conv2 nodesc t1 t2 r1 r2 show ?thesis by blast
qed

section \<open>GeoJSON export and import\<close>










section \<open>Dispatch on the format tag\<close>

text \<open>
  Claim C8.  For every text and every format tag other than \<^verbatim>\<open>geojson\<close>, \<^verbatim>\<open>gpx\<close>,
  \<^verbatim>\<open>kml\<close>, \<^verbatim>\<open>csv\<close>, \<^verbatim>\<open>osm\<close> and \<^verbatim>\<open>georss\<close>, \<^verbatim>\<open>parse\<close> does nothing to the outside and
  its promise is fulfilled with \<^verbatim>\<open>undefined\<close>; it is not rejected.
\<close>

theorem parse_unknown_format:
  "format \<notin> {''geojson'', ''gpx'', ''kml'', ''csv'', ''osm'', ''georss''} \<Longrightarrow>
   parse env str format = ([], Fulfilled Undefined)"
  by (simp add: parse_def)

text \<open>
  The tag \<^verbatim>\<open>shp\<close>.
\<close>

theorem parse_unknown_format_witness:
  "''shp'' \<notin> {''geojson'', ''gpx'', ''kml'', ''csv'', ''osm'', ''georss''} \<and>
   parse sample_env ''<gpx/>'' ''shp'' = ([], Fulfilled Undefined)"
proof -
  have h: "''shp'' \<notin> {''geojson'', ''gpx'', ''kml'', ''csv'', ''osm'', ''georss''}" by simp
  from h parse_unknown_format [OF h, of sample_env "''<gpx/>''"] show ?thesis by simp
qed

end
